theory Spec2Isabelle
  imports Complex_Main "HOL-Library.AList" "HOL-Library.Sublist" "HOL-Library.Multiset"
begin

section \<open>Token records and the token store (the App component)\<close>

text \<open>
  JavaScript numbers are modelled as \<^typ>\<open>real\<close> (integers in the record, such as
  \<open>maxRecords\<close> and millisecond timestamps, as \<^typ>\<open>int\<close>): the comparisons and sums of
  the source are read as exact arithmetic. Boolean risk signals are the truthiness of the
  corresponding field.
\<close>

datatype RiskLevel = Safe | Warning | Danger

record LpHolder =
  is_locked :: bool
  percent :: real

text \<open>
  The App component is the file src/unnamed/part_002. The fields of \<open>Token\<close> are the
  ones that it and TokenEventsList.tsx read.
  \<open>gpLpHolders\<close> holds the outcome of \<open>JSON.parse(token.gpLpHolders || '[]')\<close>:
  \<open>None\<close> when parsing or the following \<open>reduce\<close> throws, \<open>Some hs\<close> for an array of
  holder entries (the empty array for a missing or empty payload).
\<close>

record Token =
  tokenAddress :: string
  tokenName :: string
  tokenSymbol :: string
  tokenAgeHours :: real
  hpIsHoneypot :: bool
  hpLiquidityAmount :: real
  gpCanTakeBackOwnership :: bool
  gpHiddenOwner :: bool
  gpOwnerChangeBalance :: bool
  gpIsAirdropScam :: bool
  gpHoneypotWithSameCreator :: bool
  gpFakeToken :: bool
  gpIsOpenSource :: bool
  gpIsProxy :: bool
  gpIsMintable :: bool
  gpSlippageModifiable :: bool
  gpPersonalSlippageModifiable :: bool
  gpCannotSellAll :: bool
  gpTradingCooldown :: bool
  gpTransferPausable :: bool
  gpBuyTax :: real
  gpSellTax :: real
  gpOwnerAddress :: string
  gpLpHolders :: "LpHolder list option"
  gpHolderCount :: real
  riskLevel :: RiskLevel

text \<open>The risk level computed for each token of a batch (the BATCH_PROCESSED handler).\<close>

definition batchRiskLevel :: "Token \<Rightarrow> RiskLevel" where
  "batchRiskLevel token =
     (if hpIsHoneypot token then Danger
      else if gpCanTakeBackOwnership token \<or> gpHiddenOwner token \<or> gpOwnerChangeBalance token
              \<or> gpIsAirdropScam token \<or> gpHoneypotWithSameCreator token \<or> gpFakeToken token
              \<or> \<not> gpIsOpenSource token
           then Danger
      else if gpIsProxy token \<or> gpIsMintable token \<or> gpSlippageModifiable token
              \<or> gpPersonalSlippageModifiable token \<or> gpCannotSellAll token
              \<or> gpTradingCooldown token \<or> gpTransferPausable token
              \<or> (gpBuyTax token > 10 \<or> gpSellTax token > 10)
           then Warning
      else Safe)"

definition processedToken :: "Token \<Rightarrow> Token" where
  "processedToken token = token\<lparr>riskLevel := batchRiskLevel token\<rparr>"

text \<open>
  The classification as the specification words it: honeypot or an ownership-abuse signal
  gives danger; proxy, mintable, high tax or mutable slippage gives warning; else safe.
\<close>

definition spec_riskLevel :: "Token \<Rightarrow> RiskLevel" where
  "spec_riskLevel token =
     (if hpIsHoneypot token \<or> gpCanTakeBackOwnership token \<or> gpHiddenOwner token
           \<or> gpOwnerChangeBalance token
      then Danger
      else if gpIsProxy token \<or> gpIsMintable token
              \<or> (gpBuyTax token > 10 \<or> gpSellTax token > 10)
              \<or> gpSlippageModifiable token \<or> gpPersonalSlippageModifiable token
           then Warning
      else Safe)"

text \<open>
  \<open>tokens.items\<close> is a JavaScript object keyed by token address. It is modelled as an
  association list in property order: assigning to an existing key replaces the value in
  place, assigning to a new key appends (addresses are not array-index strings, so
  property order is insertion order). \<open>Object.values\<close> is the list of second components.
\<close>

type_synonym TokenItems = "(string \<times> Token) list"

definition mergeToken :: "TokenItems \<Rightarrow> Token \<Rightarrow> TokenItems" where
  "mergeToken its token = AList.update (tokenAddress token) (processedToken token) its"

definition mergeBatch :: "TokenItems \<Rightarrow> Token list \<Rightarrow> TokenItems" where
  "mergeBatch its data = foldl mergeToken its data"

datatype WorkerRequest = INIT string | REQUEST_INITIAL_TOKENS | CLOSE

record ConnectionData =
  data_connected :: bool
  data_error :: "string option"

text \<open>
  A worker message; the payload is \<open>None\<close> when \<open>data\<close> is missing (or, for a batch, not
  an array), in which case the handler does nothing.
\<close>

datatype WSMessage =
    CONNECTION_STATUS "ConnectionData option"
  | BATCH_PROCESSED "Token list option"
  | OTHER_MESSAGE

record AppState =
  items :: TokenItems
  isConnected :: bool
  connectionError :: "string option"
  isLoading :: bool
  hasReceivedInitialTokens :: bool
  posted :: "WorkerRequest list"

definition initialState :: AppState where
  "initialState = \<lparr>items = [], isConnected = False, connectionError = None,
                     isLoading = True, hasReceivedInitialTokens = False, posted = []\<rparr>"

fun onmessage :: "AppState \<Rightarrow> WSMessage \<Rightarrow> AppState" where
  "onmessage s (CONNECTION_STATUS None) = s"
| "onmessage s (CONNECTION_STATUS (Some d)) =
     (let wasConnected = isConnected s;
          s1 = s\<lparr>isConnected := data_connected d,
                 connectionError := (case data_error d of
                                       None \<Rightarrow> None
                                     | Some e \<Rightarrow> if e = [] then None else Some e)\<rparr>;
          s2 = (if wasConnected \<and> \<not> data_connected d
                then s1\<lparr>items := [], isLoading := True, hasReceivedInitialTokens := False\<rparr>
                else s1)
      in if \<not> wasConnected \<and> data_connected d
         then s2\<lparr>posted := posted s2 @ [REQUEST_INITIAL_TOKENS]\<rparr>
         else s2)"
| "onmessage s (BATCH_PROCESSED None) = s"
| "onmessage s (BATCH_PROCESSED (Some data)) =
     s\<lparr>items := mergeBatch (items s) data,
       hasReceivedInitialTokens := (if \<not> hasReceivedInitialTokens s then True
                                    else hasReceivedInitialTokens s),
       isLoading := False\<rparr>"
| "onmessage s OTHER_MESSAGE = s"

definition runMessages :: "WSMessage list \<Rightarrow> AppState" where
  "runMessages msgs = foldl onmessage initialState msgs"

definition tokensOf :: "AppState \<Rightarrow> Token list" where
  "tokensOf s = map snd (items s)"

section \<open>The filter and sort pipeline (TokenEventsList.tsx, filteredTokens)\<close>

record FilterState =
  minHolders :: real
  minLiquidity :: real
  hideHoneypots :: bool
  showOnlyHoneypots :: bool
  hideDanger :: bool
  hideWarning :: bool
  showOnlySafe :: bool
  hideNotRenounced :: bool
  hideUnlockedLiquidity :: bool
  searchQuery :: string
  sortBy :: string
  sortDirection :: string
  maxRecords :: int
  hideStagnantHolders :: bool
  hideStagnantLiquidity :: bool
  stagnantRecordCount :: int

text \<open>The defaults of \<open>getSavedFilters\<close>, used when nothing is saved.\<close>

definition defaultFilters :: FilterState where
  "defaultFilters =
     \<lparr>minHolders = 0, minLiquidity = 0, hideHoneypots = False, showOnlyHoneypots = False,
      hideDanger = False, hideWarning = False, showOnlySafe = False,
      hideNotRenounced = False, hideUnlockedLiquidity = False, searchQuery = [],
      sortBy = ''age'', sortDirection = ''desc'', maxRecords = 50,
      hideStagnantHolders = False, hideStagnantLiquidity = False, stagnantRecordCount = 10\<rparr>"

subsection \<open>String operations\<close>

text \<open>
  \<open>toLowerCase\<close> on the ASCII letters (other characters are left alone),
  \<open>String.prototype.includes\<close> (here \<open>includesStr\<close>), \<open>endsWith\<close>, and \<open>replace\<close> with a
  string pattern, which replaces the first occurrence only.
\<close>

definition toLowerChar :: "char \<Rightarrow> char" where
  "toLowerChar c =
     (let n = (of_char c :: nat) in if 65 \<le> n \<and> n \<le> 90 then char_of (n + 32) else c)"

definition toLowerCase :: "string \<Rightarrow> string" where
  "toLowerCase s = map toLowerChar s"

fun startsWith :: "string \<Rightarrow> string \<Rightarrow> bool" where
  "startsWith s [] = True"
| "startsWith [] (q # qs) = False"
| "startsWith (c # cs) (q # qs) = (c = q \<and> startsWith cs qs)"

fun includesStr :: "string \<Rightarrow> string \<Rightarrow> bool" where
  "includesStr [] q = (q = [])"
| "includesStr (c # cs) q = (startsWith (c # cs) q \<or> includesStr cs q)"

definition endsWith :: "string \<Rightarrow> string \<Rightarrow> bool" where
  "endsWith s searchString =
     (length searchString \<le> length s
      \<and> drop (length s - length searchString) s = searchString)"

fun replaceFirst :: "string \<Rightarrow> string \<Rightarrow> string \<Rightarrow> string" where
  "replaceFirst [] pat rep = (if pat = [] then rep else [])"
| "replaceFirst (c # cs) pat rep =
     (if startsWith (c # cs) pat then rep @ drop (length pat) (c # cs)
      else c # replaceFirst cs pat rep)"

subsection \<open>The filter callback\<close>

definition ZERO_ADDRESS :: string where
  "ZERO_ADDRESS = ''0x0000000000000000000000000000000000000000''"

definition totalLocked :: "LpHolder list \<Rightarrow> real" where
  "totalLocked lpHolders =
     foldl (\<lambda>acc holder. acc + (if is_locked holder then percent holder * 100 else 0)) 0 lpHolders"

definition tokenFilter :: "FilterState \<Rightarrow> Token \<Rightarrow> bool" where
  "tokenFilter currentFilters token =
     (if hideHoneypots currentFilters \<and> hpIsHoneypot token then False
      else if showOnlyHoneypots currentFilters \<and> \<not> hpIsHoneypot token then False
      else if hideDanger currentFilters \<and> riskLevel token = Danger then False
      else if hideWarning currentFilters \<and> riskLevel token = Warning then False
      else if showOnlySafe currentFilters \<and> riskLevel token \<noteq> Safe then False
      else if hideNotRenounced currentFilters \<and> gpOwnerAddress token \<noteq> ZERO_ADDRESS then False
      else if hideUnlockedLiquidity currentFilters \<and>
              (case gpLpHolders token of
                 None \<Rightarrow> True
               | Some lpHolders \<Rightarrow> totalLocked lpHolders < 90)
           then False
      else if minHolders currentFilters > 0 \<and> gpHolderCount token < minHolders currentFilters
           then False
      else if minLiquidity currentFilters > 0
              \<and> hpLiquidityAmount token < minLiquidity currentFilters
           then False
      else if searchQuery currentFilters \<noteq> []
           then (let query = toLowerCase (searchQuery currentFilters)
                 in includesStr (toLowerCase (tokenName token)) query
                    \<or> includesStr (toLowerCase (tokenSymbol token)) query
                    \<or> includesStr (toLowerCase (tokenAddress token)) query)
      else True)"


subsection \<open>The comparator, the sort and the bound\<close>

definition getRiskScore :: "Token \<Rightarrow> real" where
  "getRiskScore token = (case riskLevel token of Safe \<Rightarrow> 2 | Warning \<Rightarrow> 1 | Danger \<Rightarrow> 0)"

definition sortDirectionField :: "string \<Rightarrow> real \<times> string" where
  "sortDirectionField sortBy' =
     (if endsWith sortBy' ''_asc'' then (1, replaceFirst sortBy' ''_asc'' [])
      else (- 1, sortBy'))"

definition compareTokens :: "FilterState \<Rightarrow> Token \<Rightarrow> Token \<Rightarrow> real" where
  "compareTokens currentFilters a b =
     (let (direction, field) = sortDirectionField (sortBy currentFilters)
      in if field = ''age'' then (tokenAgeHours b - tokenAgeHours a) * direction
         else if field = ''holders'' then (gpHolderCount a - gpHolderCount b) * direction
         else if field = ''liquidity''
              then (hpLiquidityAmount a - hpLiquidityAmount b) * direction
         else if field = ''safetyScore'' then (getRiskScore a - getRiskScore b) * direction
         else 0)"

text \<open>
  \<open>Array.prototype.sort\<close> with a comparator is a stable sort (ECMAScript 2019): an
  element goes before another when the comparator is negative, after it when positive,
  and elements that compare as zero keep their order. The model is the stable insertion
  sort with that comparator.
\<close>

fun insertBy :: "('a \<Rightarrow> 'a \<Rightarrow> 'b::{linorder,zero}) \<Rightarrow> 'a \<Rightarrow> 'a list \<Rightarrow> 'a list" where
  "insertBy cmp x [] = [x]"
| "insertBy cmp x (y # ys) = (if cmp x y \<le> 0 then x # y # ys else y # insertBy cmp x ys)"

definition jsSort :: "('a \<Rightarrow> 'a \<Rightarrow> 'b::{linorder,zero}) \<Rightarrow> 'a list \<Rightarrow> 'a list" where
  "jsSort cmp xs = foldr (insertBy cmp) xs []"

text \<open>\<open>Array.prototype.slice(0, end)\<close>: a negative \<open>end\<close> counts from the end of the array.\<close>

definition slice0 :: "'a list \<Rightarrow> int \<Rightarrow> 'a list" where
  "slice0 xs end' =
     (let len = int (length xs);
          final = (if end' < 0 then max (len + end') 0 else min end' len)
      in take (nat final) xs)"

definition filteredTokens :: "Token list \<Rightarrow> FilterState \<Rightarrow> Token list" where
  "filteredTokens tokens currentFilters =
     slice0 (jsSort (compareTokens currentFilters) (filter (tokenFilter currentFilters) tokens))
       (maxRecords currentFilters)"

text \<open>
  The key that \<open>compareTokens\<close> orders by: the comparator is the difference of the keys
  of its two arguments.
\<close>

definition sortKey :: "FilterState \<Rightarrow> Token \<Rightarrow> real" where
  "sortKey currentFilters t =
     (let (direction, field) = sortDirectionField (sortBy currentFilters)
      in if field = ''age'' then - tokenAgeHours t * direction
         else if field = ''holders'' then gpHolderCount t * direction
         else if field = ''liquidity'' then hpLiquidityAmount t * direction
         else if field = ''safetyScore'' then getRiskScore t * direction
         else 0)"

section \<open>Trend calculation (TokenEventsList.tsx, calculateTrend)\<close>

datatype Trend = Up | Down | Stagnant

datatype TrendType = Liquidity | Holders

text \<open>
  A metric field of a history point is a number, \<open>null\<close>, or missing (\<open>undefined\<close>).
  The timestamp is a number of milliseconds.
\<close>

datatype JsValue = Num real | Null | Undefined

record HistoryPoint =
  timestamp :: int
  totalLiquidity :: JsValue
  holderCount :: JsValue

definition metricOf :: "TrendType \<Rightarrow> HistoryPoint \<Rightarrow> JsValue" where
  "metricOf ty point = (case ty of Liquidity \<Rightarrow> totalLiquidity point | Holders \<Rightarrow> holderCount point)"

text \<open>
  Arithmetic on a value that may be \<open>NaN\<close>, written \<open>None\<close>: \<open>undefined\<close> converts to
  \<open>NaN\<close>, \<open>null\<close> to 0, and \<open>NaN\<close> propagates through every operation and fails every
  comparison. Division by zero (an infinity or \<open>NaN\<close> in JavaScript) is not reached by
  \<open>calculateTrend\<close>: its divisors are a length of at least 2 and a positive sum of
  squares (see \<open>denominator_pos\<close>).
\<close>

fun toNumber :: "JsValue \<Rightarrow> real option" where
  "toNumber (Num v) = Some v"
| "toNumber Null = Some 0"
| "toNumber Undefined = None"

fun jsAdd :: "real option \<Rightarrow> real option \<Rightarrow> real option" where
  "jsAdd (Some a) (Some b) = Some (a + b)"
| "jsAdd _ _ = None"

fun jsSub :: "real option \<Rightarrow> real option \<Rightarrow> real option" where
  "jsSub (Some a) (Some b) = Some (a - b)"
| "jsSub _ _ = None"

fun jsMul :: "real option \<Rightarrow> real option \<Rightarrow> real option" where
  "jsMul (Some a) (Some b) = Some (a * b)"
| "jsMul _ _ = None"

fun jsDiv :: "real option \<Rightarrow> real option \<Rightarrow> real option" where
  "jsDiv (Some a) (Some b) = (if b = 0 then None else Some (a / b))"
| "jsDiv _ _ = None"

definition compareTimestamp :: "HistoryPoint \<Rightarrow> HistoryPoint \<Rightarrow> int" where
  "compareTimestamp a b = timestamp a - timestamp b"

definition calculateTrend :: "HistoryPoint list \<Rightarrow> TrendType \<Rightarrow> Trend" where
  "calculateTrend history ty =
     (if length history < 2 then Stagnant
      else
        let sortedHistory = jsSort compareTimestamp history;
            yPoints = map (\<lambda>point. toNumber (metricOf ty point)) sortedHistory;
            xPoints = map real [0..<length sortedHistory];
            xMean = foldl (+) 0 xPoints / real (length xPoints);
            yMean = jsDiv (foldl jsAdd (Some 0) yPoints) (Some (real (length yPoints)));
            slope = jsDiv
              (foldl (\<lambda>acc (x, y). jsAdd acc (jsMul (Some (x - xMean)) (jsSub y yMean)))
                 (Some 0) (zip xPoints yPoints))
              (Some (foldl (\<lambda>acc x. acc + (x - xMean)\<^sup>2) 0 xPoints));
            threshold = 0.05
        in case slope of
             None \<Rightarrow> Down
           | Some slope' \<Rightarrow>
               if \<bar>slope'\<bar> < threshold then Stagnant
               else if slope' > 0 then Up else Down)"

subsection \<open>The least-squares line, as the specification words it\<close>




text \<open>The numeric value of a metric field (used where the field is known to be a number).\<close>

fun numOf :: "JsValue \<Rightarrow> real" where
  "numOf (Num v) = v"
| "numOf Null = 0"
| "numOf Undefined = 0"



section \<open>The chart's trend (TokenLiquidityChart.tsx, dataMemo and trendInfo)\<close>

definition MAX_DATA_POINTS :: nat where
  "MAX_DATA_POINTS = 200"

definition MIN_DATA_POINT_DISTANCE :: int where
  "MIN_DATA_POINT_DISTANCE = 60000"

text \<open>
  The sampling loop of \<open>dataMemo\<close>, with \<open>lastTimestamp\<close> as an argument: a point
  without timestamp (zero is falsy) or without the selected metric is skipped; a point is
  kept when it is at least a minute after the last kept one.
\<close>

fun sampleData :: "TrendType \<Rightarrow> int \<Rightarrow> HistoryPoint list \<Rightarrow> HistoryPoint list" where
  "sampleData ty lastTimestamp [] = []"
| "sampleData ty lastTimestamp (point # rest) =
     (if timestamp point = 0 \<or> metricOf ty point = Null \<or> metricOf ty point = Undefined
      then sampleData ty lastTimestamp rest
      else if timestamp point - lastTimestamp \<ge> MIN_DATA_POINT_DISTANCE
           then point # sampleData ty (timestamp point) rest
      else sampleData ty lastTimestamp rest)"

text \<open>The chart's points are pairs \<open>(x, y)\<close>: seconds and the metric value.\<close>

definition dataMemo :: "HistoryPoint list \<Rightarrow> TrendType \<Rightarrow> (int \<times> real) list" where
  "dataMemo history ty =
     (if history = [] then []
      else
        let sortedData = jsSort compareTimestamp history;
            sampledData = sampleData ty 0 sortedData;
            finalData =
              (if length sampledData > MAX_DATA_POINTS
               then let step = (length sampledData + MAX_DATA_POINTS - 1) div MAX_DATA_POINTS
                    in map snd (filter (\<lambda>(index, _). index mod step = 0)
                                  (zip [0..<length sampledData] sampledData))
               else sampledData)
        in map (\<lambda>point. (timestamp point div 1000, numOf (metricOf ty point))) finalData)"

definition trendDirection :: "(int \<times> real) list \<Rightarrow> Trend" where
  "trendDirection data =
     (if length data < 2 then Stagnant
      else
        let xValues = map real [0..<length data];
            yValues = map snd data;
            xMean = foldl (+) 0 xValues / real (length xValues);
            yMean = foldl (+) 0 yValues / real (length yValues);
            numerator = foldl (\<lambda>acc (x, y). acc + (x - xMean) * (y - yMean)) 0
                          (zip xValues yValues);
            denominator = foldl (\<lambda>acc x. acc + (x - xMean)\<^sup>2) 0 xValues;
            slope = numerator / denominator
        in if slope > 0.05 then Up else if slope < - 0.05 then Down else Stagnant)"

definition chartTrend :: "HistoryPoint list \<Rightarrow> TrendType \<Rightarrow> Trend" where
  "chartTrend history ty = trendDirection (dataMemo history ty)"

section \<open>Example records\<close>

text \<open>
  A token with no risk signal set (open source, renounced owner, no locked liquidity
  data), used to build concrete stores.
\<close>

definition exampleToken :: "string \<Rightarrow> Token" where
  "exampleToken a =
     \<lparr>tokenAddress = a, tokenName = ''Example'', tokenSymbol = ''EXM'', tokenAgeHours = 1,
      hpIsHoneypot = False, hpLiquidityAmount = 0,
      gpCanTakeBackOwnership = False, gpHiddenOwner = False, gpOwnerChangeBalance = False,
      gpIsAirdropScam = False, gpHoneypotWithSameCreator = False, gpFakeToken = False,
      gpIsOpenSource = True, gpIsProxy = False, gpIsMintable = False,
      gpSlippageModifiable = False, gpPersonalSlippageModifiable = False,
      gpCannotSellAll = False, gpTradingCooldown = False, gpTransferPausable = False,
      gpBuyTax = 0, gpSellTax = 0,
      gpOwnerAddress = ''0x0000000000000000000000000000000000000000'',
      gpLpHolders = Some [], gpHolderCount = 0, riskLevel = Safe\<rparr>"

section \<open>The list component's view state (TokenEventsList.tsx)\<close>

text \<open>
  The signals and references of the component that the handlers below read and write
  (\<open>props_tokens\<close> is the \<open>tokens\<close> property handed to the component).
  \<open>scrollContainerRef\<close> is \<open>None\<close> while the scroll container is not mounted and
  otherwise holds its \<open>scrollTop\<close>; \<open>savedFilters\<close> is the entry of \<open>localStorage\<close> under
  the filter key; \<open>frameCallbacks\<close> are the callbacks handed to
  \<open>requestAnimationFrame\<close> that have not run yet; \<open>measureCalls\<close> counts the calls of
  the virtualizer's \<open>measure\<close>. Debug logging is left out.
\<close>

datatype FrameCallback = RestoreScroll real | ScrollToIndex int

record ListState =
  props_tokens :: "Token list"
  filters :: FilterState
  expandedTokens :: "string set"
  measuredHeights :: "int \<rightharpoonup> real"
  scrollContainerRef :: "real option"
  viewportHeight :: real
  savedFilters :: "FilterState option"
  frameCallbacks :: "FrameCallback list"
  measureCalls :: nat

definition COLLAPSED_HEIGHT :: real where
  "COLLAPSED_HEIGHT = 42"

definition EXPANDED_HEIGHT :: real where
  "EXPANDED_HEIGHT = 800"

text \<open>\<open>scrollContainerRef?.scrollTop || 0\<close>, the way the handlers read the scroll offset.\<close>

definition currentScroll :: "ListState \<Rightarrow> real" where
  "currentScroll s = (case scrollContainerRef s of None \<Rightarrow> 0 | Some scrollTop \<Rightarrow> scrollTop)"

definition currentTokens :: "ListState \<Rightarrow> Token list" where
  "currentTokens s = filteredTokens (props_tokens s) (filters s)"

definition estimateSize :: "ListState \<Rightarrow> int \<Rightarrow> real" where
  "estimateSize s index =
     (if index < 0 \<or> index \<ge> int (length (currentTokens s)) then COLLAPSED_HEIGHT
      else
        let token = currentTokens s ! nat index;
            fallback = (if tokenAddress token \<in> expandedTokens s then EXPANDED_HEIGHT
                        else COLLAPSED_HEIGHT)
        in case measuredHeights s index of
             None \<Rightarrow> fallback
           | Some measuredHeight \<Rightarrow> if measuredHeight \<noteq> 0 then measuredHeight else fallback)"

definition toggleTokenExpansion :: "string \<Rightarrow> ListState \<Rightarrow> ListState" where
  "toggleTokenExpansion address s =
     s\<lparr>expandedTokens :=
         (if address \<in> expandedTokens s then expandedTokens s - {address}
          else insert address (expandedTokens s))\<rparr>"

text \<open>\<open>Array.prototype.findIndex\<close>: the first index that satisfies the test, or -1.\<close>

fun findIndexFrom :: "('a \<Rightarrow> bool) \<Rightarrow> int \<Rightarrow> 'a list \<Rightarrow> int" where
  "findIndexFrom P i [] = - 1"
| "findIndexFrom P i (x # xs) = (if P x then i else findIndexFrom P (i + 1) xs)"

definition findIndex :: "('a \<Rightarrow> bool) \<Rightarrow> 'a list \<Rightarrow> int" where
  "findIndex P xs = findIndexFrom P 0 xs"

definition handleTokenClick :: "string \<Rightarrow> ListState \<Rightarrow> ListState" where
  "handleTokenClick address s =
     (let currentScroll' = currentScroll s;
          s1 = toggleTokenExpansion address s;
          index = findIndex (\<lambda>t. tokenAddress t = address) (currentTokens s1);
          newHeights = (measuredHeights s1)(index := None);
          s2 = s1\<lparr>measuredHeights := newHeights, measureCalls := Suc (measureCalls s1)\<rparr>
      in if index \<ge> 0
         then s2\<lparr>frameCallbacks := frameCallbacks s2 @ [ScrollToIndex index]\<rparr>
         else s2)"

text \<open>
  The callback of the \<open>ResizeObserver\<close>: an entry is the \<open>data-index\<close> of the observed
  element (-1 when the attribute is missing) with its measured height. When a height
  changed, the callback stores the new heights, asks for a re-measure and restores the
  scroll offset in the next animation frame.
\<close>

fun observeEntries ::
  "(int \<times> real) list \<Rightarrow> (int \<rightharpoonup> real) \<times> bool \<Rightarrow> (int \<rightharpoonup> real) \<times> bool" where
  "observeEntries [] acc = acc"
| "observeEntries ((index, currentHeight) # entries) (newHeights, needsRemeasure) =
     (if index \<ge> 0 \<and> newHeights index \<noteq> Some currentHeight
      then observeEntries entries (newHeights(index \<mapsto> currentHeight), True)
      else observeEntries entries (newHeights, needsRemeasure))"

definition resizeObserved :: "(int \<times> real) list \<Rightarrow> ListState \<Rightarrow> ListState" where
  "resizeObserved entries s =
     (let (newHeights, needsRemeasure) = observeEntries entries (measuredHeights s, False)
      in if needsRemeasure
         then let currentScroll' = currentScroll s
              in s\<lparr>measuredHeights := newHeights, measureCalls := Suc (measureCalls s),
                    frameCallbacks := frameCallbacks s @ [RestoreScroll currentScroll']\<rparr>
         else s)"



subsection \<open>The virtualizer and the animation frame\<close>

text \<open>
  Modelled from the spec: the virtualizer (\<open>createVirtualizer\<close>, \<open>measure\<close>,
  \<open>scrollToIndex\<close> of the virtualization library) and the browser's animation frame are
  not part of the repository's sources. Following section 4.6 of the specification, the
  offset of a row is the sum of the estimated sizes of the rows before it, a row is
  visible when its extent intersects the viewport, and a scroll to an index with
  \<open>align: 'start'\<close> puts the start of that row at the top of the viewport. An animation
  frame runs the pending callbacks in order.
\<close>

definition rowStart :: "ListState \<Rightarrow> nat \<Rightarrow> real" where
  "rowStart s index = (\<Sum>j \<leftarrow> [0..<index]. estimateSize s (int j))"

definition visibleRows :: "ListState \<Rightarrow> nat list" where
  "visibleRows s =
     filter (\<lambda>j. rowStart s j < currentScroll s + viewportHeight s
                 \<and> currentScroll s < rowStart s j + estimateSize s (int j))
       [0..<length (currentTokens s)]"

fun runCallback :: "ListState \<Rightarrow> FrameCallback \<Rightarrow> ListState" where
  "runCallback s (RestoreScroll scrollTop) =
     s\<lparr>scrollContainerRef := (case scrollContainerRef s of
                                 None \<Rightarrow> None
                               | Some _ \<Rightarrow> Some scrollTop)\<rparr>"
| "runCallback s (ScrollToIndex index) =
     s\<lparr>scrollContainerRef := (case scrollContainerRef s of
                                 None \<Rightarrow> None
                               | Some _ \<Rightarrow> Some (rowStart s (nat index)))\<rparr>"

definition animationFrame :: "ListState \<Rightarrow> ListState" where
  "animationFrame s = foldl runCallback (s\<lparr>frameCallbacks := []\<rparr>) (frameCallbacks s)"

text \<open>Six collapsed rows in a viewport of 100 pixels, scrolled to offset 126.\<close>

definition exampleList :: ListState where
  "exampleList =
     \<lparr>props_tokens = map exampleToken [''0xa0'', ''0xa1'', ''0xa2'', ''0xa3'', ''0xa4'', ''0xa5''],
      filters = defaultFilters, expandedTokens = {}, measuredHeights = Map.empty,
      scrollContainerRef = Some 126, viewportHeight = 100, savedFilters = None,
      frameCallbacks = [], measureCalls = 0\<rparr>"

section \<open>Properties of the token store\<close>

lemma batchRiskLevel_update [simp]: "batchRiskLevel (t\<lparr>riskLevel := r\<rparr>) = batchRiskLevel t"
  by (simp add: batchRiskLevel_def)

lemma processedToken_address [simp]: "tokenAddress (processedToken t) = tokenAddress t"
  by (simp add: processedToken_def)

lemma processedToken_risk [simp]: "riskLevel (processedToken t) = batchRiskLevel (processedToken t)"
  by (simp add: processedToken_def)

lemma mergeBatch_Nil [simp]: "mergeBatch its [] = its"
  by (simp add: mergeBatch_def)

lemma mergeBatch_Cons [simp]: "mergeBatch its (t # ts) = mergeBatch (mergeToken its t) ts"
  by (simp add: mergeBatch_def)

lemma mergeBatch_snoc [simp]: "mergeBatch its (ts @ [t]) = mergeToken (mergeBatch its ts) t"
  by (simp add: mergeBatch_def)

lemma distinct_mergeToken: "distinct (map fst its) \<Longrightarrow> distinct (map fst (mergeToken its t))"
  by (simp add: mergeToken_def distinct_update)

lemma distinct_mergeBatch: "distinct (map fst its) \<Longrightarrow> distinct (map fst (mergeBatch its ts))"
  by (induction ts arbitrary: its) (simp_all add: distinct_mergeToken)

lemma map_of_mergeToken:
  "map_of (mergeToken its t) = (map_of its)(tokenAddress t \<mapsto> processedToken t)"
  by (simp add: mergeToken_def update_conv')

lemma map_of_mergeBatch:
  "map_of (mergeBatch its ts) a =
     (case find (\<lambda>t. tokenAddress t = a) (rev ts) of
        None \<Rightarrow> map_of its a
      | Some t \<Rightarrow> Some (processedToken t))"
  by (induction ts rule: rev_induct) (simp_all add: map_of_mergeToken)

lemma keys_mergeToken:
  "map fst (mergeToken its t) =
     (if tokenAddress t \<in> set (map fst its) then map fst its else map fst its @ [tokenAddress t])"
  by (simp add: mergeToken_def update_keys)

lemma keys_mergeBatch_present:
  "set (map tokenAddress ts) \<subseteq> set (map fst its) \<Longrightarrow> map fst (mergeBatch its ts) = map fst its"
proof (induction ts arbitrary: its)
  case Nil
  then show ?case by simp
next
  case (Cons t ts)
  from Cons.prems have k: "map fst (mergeToken its t) = map fst its"
    by (simp add: keys_mergeToken)
  with Cons.prems have "set (map tokenAddress ts) \<subseteq> set (map fst (mergeToken its t))"
    by simp
  from Cons.IH[OF this] k show ?case by simp
qed

lemma keys_mergeBatch_superset:
  "set (map fst its) \<union> set (map tokenAddress ts) \<subseteq> set (map fst (mergeBatch its ts))"
proof (induction ts arbitrary: its)
  case Nil
  then show ?case by simp
next
  case (Cons t ts)
  have "set (map fst its) \<union> {tokenAddress t} \<subseteq> set (map fst (mergeToken its t))"
    unfolding keys_mergeToken by auto
  moreover have "set (map fst (mergeToken its t)) \<union> set (map tokenAddress ts)
      \<subseteq> set (map fst (mergeBatch (mergeToken its t) ts))"
    by (rule Cons.IH)
  ultimately show ?case unfolding mergeBatch_Cons list.map list.set by blast
qed

lemma alist_eqI:
  assumes d: "distinct (map fst xs)" and k: "map fst xs = map fst ys"
    and m: "map_of xs = map_of ys"
  shows "xs = ys"
proof -
  have "length xs = length ys" using k by (metis length_map)
  then show ?thesis using d k m
  proof (induction xs ys rule: list_induct2)
    case Nil
    then show ?case by simp
  next
    case (Cons x xs y ys)
    from Cons.prems(2) have f: "fst x = fst y" and ks: "map fst xs = map fst ys" by auto
    have pt: "map_of (x # xs) a = map_of (y # ys) a" for a
      by (rule fun_cong[OF Cons.prems(3)])
    from pt[of "fst x"] f have s: "snd x = snd y" by simp
    from Cons.prems(1) have nx: "fst x \<notin> fst ` set xs" by (simp flip: set_map)
    with ks have ny: "fst x \<notin> fst ` set ys" by (metis set_map)
    have "map_of xs a = map_of ys a" for a
    proof (cases "a = fst x")
      case True
      from nx ny have "map_of xs (fst x) = None" "map_of ys (fst x) = None"
        by (simp_all add: map_of_eq_None_iff)
      with True show ?thesis by simp
    next
      case False
      with pt[of a] f show ?thesis by simp
    qed
    then have "map_of xs = map_of ys" by (rule ext)
    with Cons.IH Cons.prems(1) ks have "xs = ys" by simp
    with f s show ?case by (simp add: prod_eq_iff)
  qed
qed

lemma mergeBatch_idem:
  assumes "distinct (map fst its)"
  shows "mergeBatch (mergeBatch its ts) ts = mergeBatch its ts"
proof (rule alist_eqI)
  show "distinct (map fst (mergeBatch (mergeBatch its ts) ts))"
    by (intro distinct_mergeBatch assms)
  show "map fst (mergeBatch (mergeBatch its ts) ts) = map fst (mergeBatch its ts)"
    using keys_mergeBatch_superset[of its ts] by (intro keys_mergeBatch_present) auto
  show "map_of (mergeBatch (mergeBatch its ts) ts) = map_of (mergeBatch its ts)"
    by (rule ext) (simp add: map_of_mergeBatch split: option.splits)
qed

lemma onmessage_keeps_keys:
  "\<forall>(a, r) \<in> set its. a = tokenAddress r \<and> riskLevel r = batchRiskLevel r \<Longrightarrow>
   \<forall>(a, r) \<in> set (mergeToken its t). a = tokenAddress r \<and> riskLevel r = batchRiskLevel r"
  by (induction its) (auto simp: mergeToken_def)

lemma mergeBatch_invariant:
  "\<forall>(a, r) \<in> set its. a = tokenAddress r \<and> riskLevel r = batchRiskLevel r \<Longrightarrow>
   \<forall>(a, r) \<in> set (mergeBatch its ts). a = tokenAddress r \<and> riskLevel r = batchRiskLevel r"
proof (induction ts arbitrary: its)
  case Nil
  then show ?case by simp
next
  case (Cons t ts)
  show ?case unfolding mergeBatch_Cons
    by (rule Cons.IH, rule onmessage_keeps_keys, rule Cons.prems)
qed

lemma onmessage_invariant:
  assumes "\<forall>(a, r) \<in> set (items s). a = tokenAddress r \<and> riskLevel r = batchRiskLevel r"
  shows "\<forall>(a, r) \<in> set (items (onmessage s m)). a = tokenAddress r \<and> riskLevel r = batchRiskLevel r"
proof (cases m)
  case (CONNECTION_STATUS d)
  with assms show ?thesis by (cases d) (simp_all add: Let_def)
next
  case (BATCH_PROCESSED d)
  with assms show ?thesis by (cases d) (simp_all add: mergeBatch_invariant)
next
  case OTHER_MESSAGE
  with assms show ?thesis by simp
qed

lemma runMessages_snoc: "runMessages (msgs @ [m]) = onmessage (runMessages msgs) m"
  by (simp add: runMessages_def)

lemma runMessages_invariant:
  "\<forall>(a, r) \<in> set (items (runMessages msgs)). a = tokenAddress r \<and> riskLevel r = batchRiskLevel r"
proof (induction msgs rule: rev_induct)
  case Nil
  show ?case by (simp add: runMessages_def initialState_def)
next
  case (snoc m msgs)
  then show ?case unfolding runMessages_snoc by (rule onmessage_invariant)
qed

lemma distinct_onmessage:
  "distinct (map fst (items s)) \<Longrightarrow> distinct (map fst (items (onmessage s m)))"
  by (cases m; cases "case m of CONNECTION_STATUS d \<Rightarrow> d = None | BATCH_PROCESSED d \<Rightarrow> d = None | _ \<Rightarrow> True")
     (auto simp: Let_def distinct_mergeBatch)

lemma distinct_runMessages: "distinct (map fst (items (runMessages msgs)))"
proof (induction msgs rule: rev_induct)
  case Nil
  show ?case by (simp add: runMessages_def initialState_def)
next
  case (snoc m msgs)
  then show ?case unfolding runMessages_snoc by (rule distinct_onmessage)
qed

text \<open>
  Claim C1, as amended. Every record that a batch merge installs, and every record found
  in the store after any sequence of worker messages, carries the risk level that the
  merge computes from its other fields: danger when the honeypot flag, an ownership
  signal (take-back-ownership, hidden owner, owner-change-balance), the airdrop-scam,
  same-creator-honeypot or fake-token flag is set or the contract is not open source;
  otherwise warning when the proxy, mintable, slippage-modifiable,
  personal-slippage-modifiable, cannot-sell-all, trading-cooldown or transfer-pausable
  flag is set or the buy or sell tax exceeds 10; otherwise safe.
\<close>

theorem stored_riskLevel_classification:
  "(\<forall>t \<in> set data. \<exists>r. map_of (items (onmessage s (BATCH_PROCESSED (Some data)))) (tokenAddress t) = Some r
        \<and> riskLevel r =
           (if hpIsHoneypot r \<or> gpCanTakeBackOwnership r \<or> gpHiddenOwner r
                 \<or> gpOwnerChangeBalance r \<or> gpIsAirdropScam r \<or> gpHoneypotWithSameCreator r
                 \<or> gpFakeToken r \<or> \<not> gpIsOpenSource r
            then Danger
            else if gpIsProxy r \<or> gpIsMintable r \<or> gpSlippageModifiable r
                    \<or> gpPersonalSlippageModifiable r \<or> gpCannotSellAll r
                    \<or> gpTradingCooldown r \<or> gpTransferPausable r
                    \<or> gpBuyTax r > 10 \<or> gpSellTax r > 10
                 then Warning
            else Safe))
   \<and> (\<forall>r \<in> set (tokensOf (runMessages msgs)).
         riskLevel r =
           (if hpIsHoneypot r \<or> gpCanTakeBackOwnership r \<or> gpHiddenOwner r
                 \<or> gpOwnerChangeBalance r \<or> gpIsAirdropScam r \<or> gpHoneypotWithSameCreator r
                 \<or> gpFakeToken r \<or> \<not> gpIsOpenSource r
            then Danger
            else if gpIsProxy r \<or> gpIsMintable r \<or> gpSlippageModifiable r
                    \<or> gpPersonalSlippageModifiable r \<or> gpCannotSellAll r
                    \<or> gpTradingCooldown r \<or> gpTransferPausable r
                    \<or> gpBuyTax r > 10 \<or> gpSellTax r > 10
                 then Warning
            else Safe))"
proof (intro conjI ballI)
  fix t assume t: "t \<in> set data"
  then obtain u where u: "find (\<lambda>x. tokenAddress x = tokenAddress t) (rev data) = Some u"
    by (cases "find (\<lambda>x. tokenAddress x = tokenAddress t) (rev data)") (auto simp: find_None_iff)
  have "map_of (items (onmessage s (BATCH_PROCESSED (Some data)))) (tokenAddress t) = Some (processedToken u)"
    by (simp add: map_of_mergeBatch u)
  moreover have "riskLevel (processedToken u) = batchRiskLevel (processedToken u)" by simp
  ultimately show "\<exists>r. map_of (items (onmessage s (BATCH_PROCESSED (Some data)))) (tokenAddress t) = Some r
        \<and> riskLevel r =
           (if hpIsHoneypot r \<or> gpCanTakeBackOwnership r \<or> gpHiddenOwner r
                 \<or> gpOwnerChangeBalance r \<or> gpIsAirdropScam r \<or> gpHoneypotWithSameCreator r
                 \<or> gpFakeToken r \<or> \<not> gpIsOpenSource r
            then Danger
            else if gpIsProxy r \<or> gpIsMintable r \<or> gpSlippageModifiable r
                    \<or> gpPersonalSlippageModifiable r \<or> gpCannotSellAll r
                    \<or> gpTradingCooldown r \<or> gpTransferPausable r
                    \<or> gpBuyTax r > 10 \<or> gpSellTax r > 10
                 then Warning
            else Safe)"
    by (auto simp: batchRiskLevel_def)
next
  fix r assume "r \<in> set (tokensOf (runMessages msgs))"
  then obtain a where "(a, r) \<in> set (items (runMessages msgs))"
    by (auto simp: tokensOf_def)
  with runMessages_invariant[of msgs] have "riskLevel r = batchRiskLevel r" by auto
  then show "riskLevel r =
           (if hpIsHoneypot r \<or> gpCanTakeBackOwnership r \<or> gpHiddenOwner r
                 \<or> gpOwnerChangeBalance r \<or> gpIsAirdropScam r \<or> gpHoneypotWithSameCreator r
                 \<or> gpFakeToken r \<or> \<not> gpIsOpenSource r
            then Danger
            else if gpIsProxy r \<or> gpIsMintable r \<or> gpSlippageModifiable r
                    \<or> gpPersonalSlippageModifiable r \<or> gpCannotSellAll r
                    \<or> gpTradingCooldown r \<or> gpTransferPausable r
                    \<or> gpBuyTax r > 10 \<or> gpSellTax r > 10
                 then Warning
            else Safe)"
    by (auto simp: batchRiskLevel_def)
qed

text \<open>
  The classification as the specification words it differs from the stored level: a
  token whose only signal is a closed-source contract is stored as danger, and a token
  whose only signal is a pausable transfer is stored as warning, while the specification's
  precedence gives safe for both.
\<close>

theorem stored_riskLevel_spec_counterexample:
  "map riskLevel (tokensOf (onmessage initialState
       (BATCH_PROCESSED (Some [(exampleToken ''0xa1'')\<lparr>gpIsOpenSource := False\<rparr>,
                               (exampleToken ''0xb2'')\<lparr>gpTransferPausable := True\<rparr>]))))
     = [Danger, Warning]
   \<and> map spec_riskLevel (tokensOf (onmessage initialState
       (BATCH_PROCESSED (Some [(exampleToken ''0xa1'')\<lparr>gpIsOpenSource := False\<rparr>,
                               (exampleToken ''0xb2'')\<lparr>gpTransferPausable := True\<rparr>]))))
     = [Safe, Safe]"
  by (simp add: tokensOf_def initialState_def mergeToken_def processedToken_def
        batchRiskLevel_def spec_riskLevel_def exampleToken_def)

theorem stored_riskLevel_classification_witness:
  "tokensOf (runMessages [BATCH_PROCESSED (Some [(exampleToken ''0xa1'')\<lparr>gpTransferPausable := True\<rparr>])])
     = [(exampleToken ''0xa1'')\<lparr>gpTransferPausable := True, riskLevel := Warning\<rparr>]
   \<and> map_of (items (onmessage initialState
         (BATCH_PROCESSED (Some [(exampleToken ''0xa1'')\<lparr>gpTransferPausable := True\<rparr>])))) ''0xa1''
     = Some ((exampleToken ''0xa1'')\<lparr>gpTransferPausable := True, riskLevel := Warning\<rparr>)
   \<and> riskLevel ((exampleToken ''0xa1'')\<lparr>gpTransferPausable := True, riskLevel := Warning\<rparr>)
     = Warning"
  using stored_riskLevel_classification
    [of "[(exampleToken ''0xa1'')\<lparr>gpTransferPausable := True\<rparr>]" initialState
        "[BATCH_PROCESSED (Some [(exampleToken ''0xa1'')\<lparr>gpTransferPausable := True\<rparr>])]"]
  by (simp add: tokensOf_def runMessages_def initialState_def mergeToken_def processedToken_def
        batchRiskLevel_def exampleToken_def)

text \<open>
  Claim C4. On a store whose addresses are pairwise distinct (every reachable store is,
  see \<open>distinct_runMessages\<close>), handling the same batch a second time leaves the whole
  application state, and in particular the store with its property order, unchanged;
  the addresses stay pairwise distinct; and each address of the batch maps to the
  processed form of the record that comes last in the batch with that address, every other
  address keeping its previous record.
\<close>

theorem merge_idempotent_last_write_wins:
  assumes "distinct (map fst (items s))"
  shows "onmessage (onmessage s (BATCH_PROCESSED (Some data))) (BATCH_PROCESSED (Some data))
           = onmessage s (BATCH_PROCESSED (Some data))
       \<and> distinct (map fst (items (onmessage s (BATCH_PROCESSED (Some data)))))
       \<and> (\<forall>a. map_of (items (onmessage s (BATCH_PROCESSED (Some data)))) a =
              (case find (\<lambda>t. tokenAddress t = a) (rev data) of
                 None \<Rightarrow> map_of (items s) a
               | Some t \<Rightarrow> Some (processedToken t)))"
  using assms by (simp add: mergeBatch_idem distinct_mergeBatch map_of_mergeBatch)

theorem merge_idempotent_last_write_wins_witness:
  "distinct (map fst (items initialState))
   \<and> onmessage (onmessage initialState
         (BATCH_PROCESSED (Some [exampleToken ''0xa1'', exampleToken ''0xb2'',
                                 (exampleToken ''0xa1'')\<lparr>hpIsHoneypot := True\<rparr>])))
         (BATCH_PROCESSED (Some [exampleToken ''0xa1'', exampleToken ''0xb2'',
                                 (exampleToken ''0xa1'')\<lparr>hpIsHoneypot := True\<rparr>]))
       = onmessage initialState
         (BATCH_PROCESSED (Some [exampleToken ''0xa1'', exampleToken ''0xb2'',
                                 (exampleToken ''0xa1'')\<lparr>hpIsHoneypot := True\<rparr>]))
   \<and> items (onmessage initialState
         (BATCH_PROCESSED (Some [exampleToken ''0xa1'', exampleToken ''0xb2'',
                                 (exampleToken ''0xa1'')\<lparr>hpIsHoneypot := True\<rparr>])))
       = [(''0xa1'', (exampleToken ''0xa1'')\<lparr>hpIsHoneypot := True, riskLevel := Danger\<rparr>),
          (''0xb2'', exampleToken ''0xb2'')]"
proof -
  have d: "distinct (map fst (items initialState))"
    by (simp add: initialState_def)
  have i: "items (onmessage initialState
         (BATCH_PROCESSED (Some [exampleToken ''0xa1'', exampleToken ''0xb2'',
                                 (exampleToken ''0xa1'')\<lparr>hpIsHoneypot := True\<rparr>])))
       = [(''0xa1'', (exampleToken ''0xa1'')\<lparr>hpIsHoneypot := True, riskLevel := Danger\<rparr>),
          (''0xb2'', exampleToken ''0xb2'')]"
    by (simp add: initialState_def mergeToken_def processedToken_def batchRiskLevel_def
          exampleToken_def)
  from merge_idempotent_last_write_wins[OF d] d i show ?thesis by blast
qed

section \<open>Connection status\<close>

text \<open>
  Claim C9. A connection-status message that reports disconnected while the application
  was connected empties the store; the same message while the application was already
  disconnected leaves the store as it was.
\<close>

theorem disconnect_clears_store:
  "(isConnected s \<and> \<not> data_connected d \<longrightarrow>
      items (onmessage s (CONNECTION_STATUS (Some d))) = [])
   \<and> (\<not> isConnected s \<and> \<not> data_connected d \<longrightarrow>
      items (onmessage s (CONNECTION_STATUS (Some d))) = items s)"
  by (simp add: Let_def)

theorem disconnect_clears_store_witness:
  "isConnected (runMessages [CONNECTION_STATUS (Some \<lparr>data_connected = True, data_error = None\<rparr>),
                             BATCH_PROCESSED (Some [exampleToken ''0xa1''])])
   \<and> items (runMessages [CONNECTION_STATUS (Some \<lparr>data_connected = True, data_error = None\<rparr>),
                         BATCH_PROCESSED (Some [exampleToken ''0xa1''])]) \<noteq> []
   \<and> \<not> data_connected \<lparr>data_connected = False, data_error = Some ''closed''\<rparr>
   \<and> items (onmessage
        (runMessages [CONNECTION_STATUS (Some \<lparr>data_connected = True, data_error = None\<rparr>),
                      BATCH_PROCESSED (Some [exampleToken ''0xa1''])])
        (CONNECTION_STATUS (Some \<lparr>data_connected = False, data_error = Some ''closed''\<rparr>))) = []
   \<and> \<not> isConnected (runMessages [BATCH_PROCESSED (Some [exampleToken ''0xa1''])])
   \<and> items (onmessage (runMessages [BATCH_PROCESSED (Some [exampleToken ''0xa1''])])
        (CONNECTION_STATUS (Some \<lparr>data_connected = False, data_error = Some ''closed''\<rparr>)))
       = items (runMessages [BATCH_PROCESSED (Some [exampleToken ''0xa1''])])
   \<and> items (runMessages [BATCH_PROCESSED (Some [exampleToken ''0xa1''])]) \<noteq> []"
proof -
  have a: "isConnected (runMessages [CONNECTION_STATUS (Some \<lparr>data_connected = True, data_error = None\<rparr>),
                             BATCH_PROCESSED (Some [exampleToken ''0xa1''])])"
    by (simp add: runMessages_def initialState_def Let_def)
  have b: "items (runMessages [CONNECTION_STATUS (Some \<lparr>data_connected = True, data_error = None\<rparr>),
                         BATCH_PROCESSED (Some [exampleToken ''0xa1''])]) \<noteq> []"
    by (simp add: runMessages_def initialState_def Let_def mergeToken_def)
  have c: "\<not> data_connected \<lparr>data_connected = False, data_error = Some ''closed''\<rparr>"
    by simp
  have e: "\<not> isConnected (runMessages [BATCH_PROCESSED (Some [exampleToken ''0xa1''])])"
    by (simp add: runMessages_def initialState_def)
  have f: "items (runMessages [BATCH_PROCESSED (Some [exampleToken ''0xa1''])]) \<noteq> []"
    by (simp add: runMessages_def initialState_def mergeToken_def)
  from disconnect_clears_store[of
      "runMessages [CONNECTION_STATUS (Some \<lparr>data_connected = True, data_error = None\<rparr>),
                    BATCH_PROCESSED (Some [exampleToken ''0xa1''])]"
      "\<lparr>data_connected = False, data_error = Some ''closed''\<rparr>"]
    disconnect_clears_store[of "runMessages [BATCH_PROCESSED (Some [exampleToken ''0xa1''])]"
      "\<lparr>data_connected = False, data_error = Some ''closed''\<rparr>"]
    a b c e f
  show ?thesis by blast
qed

section \<open>Properties of the filter and sort pipeline\<close>






lemma compareTokens_sortKey: "compareTokens f a b = sortKey f a - sortKey f b"
  by (simp add: compareTokens_def sortKey_def Let_def split: prod.splits) (simp add: algebra_simps)

lemma insertBy_insort_key:
  assumes "\<And>x y. cmp x y \<le> 0 \<longleftrightarrow> k x \<le> k y"
  shows "insertBy cmp x ys = insort_key k x ys"
  by (induction ys) (simp_all add: assms)

lemma jsSort_sort_key:
  assumes "\<And>x y. cmp x y \<le> 0 \<longleftrightarrow> k x \<le> k y"
  shows "jsSort cmp xs = sort_key k xs"
proof -
  have "insertBy cmp = insort_key k"
    by (intro ext) (rule insertBy_insort_key[OF assms])
  then show ?thesis by (simp add: jsSort_def sort_key_def)
qed

lemma jsSort_compareTokens: "jsSort (compareTokens f) xs = sort_key (sortKey f) xs"
  by (rule jsSort_sort_key) (simp add: compareTokens_sortKey)

lemma slice0_take: "slice0 xs e = take (if e < 0 then length xs - nat (- e) else nat e) xs"
proof -
  have "nat (int (length xs) + e) = length xs - nat (- e)" if "e < 0"
    using that by linarith
  moreover have "take (nat e) xs = take (nat (min e (int (length xs)))) xs"
    by (cases "e \<le> int (length xs)") (simp_all add: min_def)
  ultimately show ?thesis
    by (auto simp: slice0_def Let_def max_def)
qed












lemma compareTokens_zero_iff: "compareTokens f k t = 0 \<longleftrightarrow> sortKey f t = sortKey f k"
  by (auto simp: compareTokens_sortKey)

lemma prefix_filter_slice0: "prefix (filter P (slice0 xs e)) (filter P xs)"
  unfolding slice0_take by (metis append_take_drop_id filter_append prefixI)

text \<open>
  Claim C5. For every record \<open>k\<close>, the projected records whose sort key equals that of
  \<open>k\<close> (the comparator is zero) appear in the order in which they appear in the store
  snapshot: they are an initial segment of the snapshot's qualifying records of that
  key, hence a subsequence of the snapshot. The comparator is zero exactly when the
  selected field agrees (age, holders, liquidity, or the safety score, which is 2 for
  safe, 1 for warning and 0 for danger), in either direction.
\<close>

theorem filteredTokens_stable:
  "prefix (filter (\<lambda>t. compareTokens f k t = 0) (filteredTokens tokens f))
          (filter (\<lambda>t. compareTokens f k t = 0) (filter (tokenFilter f) tokens))
   \<and> subseq (filter (\<lambda>t. compareTokens f k t = 0) (filteredTokens tokens f)) tokens
   \<and> (sortBy f \<in> {''age'', ''age_asc''} \<longrightarrow>
        (compareTokens f a b = 0 \<longleftrightarrow> tokenAgeHours a = tokenAgeHours b))
   \<and> (sortBy f \<in> {''holders'', ''holders_asc''} \<longrightarrow>
        (compareTokens f a b = 0 \<longleftrightarrow> gpHolderCount a = gpHolderCount b))
   \<and> (sortBy f \<in> {''liquidity'', ''liquidity_asc''} \<longrightarrow>
        (compareTokens f a b = 0 \<longleftrightarrow> hpLiquidityAmount a = hpLiquidityAmount b))
   \<and> (sortBy f \<in> {''safetyScore'', ''safetyScore_asc''} \<longrightarrow>
        (compareTokens f a b = 0 \<longleftrightarrow> getRiskScore a = getRiskScore b))
   \<and> getRiskScore a = (case riskLevel a of Safe \<Rightarrow> 2 | Warning \<Rightarrow> 1 | Danger \<Rightarrow> 0)"
proof (intro conjI)
  let ?P = "\<lambda>t. compareTokens f k t = 0"
  let ?F = "filter (tokenFilter f) tokens"
  have st: "filter ?P (jsSort (compareTokens f) ?F) = filter ?P ?F"
    unfolding jsSort_compareTokens compareTokens_zero_iff by (rule sort_key_stable)
  have "prefix (filter ?P (slice0 (jsSort (compareTokens f) ?F) (maxRecords f)))
               (filter ?P (jsSort (compareTokens f) ?F))"
    by (rule prefix_filter_slice0)
  then show p: "prefix (filter ?P (filteredTokens tokens f)) (filter ?P ?F)"
    unfolding filteredTokens_def st .
  have "subseq (filter ?P ?F) tokens"
    using subseq_order.trans[OF subseq_filter_left subseq_filter_left] .
  with p show "subseq (filter ?P (filteredTokens tokens f)) tokens"
    using subseq_order.trans[OF prefix_imp_subseq] by blast
  show "sortBy f \<in> {''age'', ''age_asc''} \<longrightarrow>
        (compareTokens f a b = 0 \<longleftrightarrow> tokenAgeHours a = tokenAgeHours b)"
    by (auto simp: compareTokens_def sortDirectionField_def endsWith_def)
  show "sortBy f \<in> {''holders'', ''holders_asc''} \<longrightarrow>
        (compareTokens f a b = 0 \<longleftrightarrow> gpHolderCount a = gpHolderCount b)"
    by (auto simp: compareTokens_def sortDirectionField_def endsWith_def)
  show "sortBy f \<in> {''liquidity'', ''liquidity_asc''} \<longrightarrow>
        (compareTokens f a b = 0 \<longleftrightarrow> hpLiquidityAmount a = hpLiquidityAmount b)"
    by (auto simp: compareTokens_def sortDirectionField_def endsWith_def)
  show "sortBy f \<in> {''safetyScore'', ''safetyScore_asc''} \<longrightarrow>
        (compareTokens f a b = 0 \<longleftrightarrow> getRiskScore a = getRiskScore b)"
    by (auto simp: compareTokens_def sortDirectionField_def endsWith_def)
  show "getRiskScore a = (case riskLevel a of Safe \<Rightarrow> 2 | Warning \<Rightarrow> 1 | Danger \<Rightarrow> 0)"
    by (simp add: getRiskScore_def)
qed

theorem filteredTokens_stable_witness:
  "filteredTokens
      [(exampleToken ''0xa1'')\<lparr>hpLiquidityAmount := 500\<rparr>,
       (exampleToken ''0xb2'')\<lparr>hpLiquidityAmount := 2000\<rparr>,
       (exampleToken ''0xc3'')\<lparr>hpLiquidityAmount := 500\<rparr>]
      (defaultFilters\<lparr>sortBy := ''liquidity''\<rparr>)
     = [(exampleToken ''0xb2'')\<lparr>hpLiquidityAmount := 2000\<rparr>,
        (exampleToken ''0xa1'')\<lparr>hpLiquidityAmount := 500\<rparr>,
        (exampleToken ''0xc3'')\<lparr>hpLiquidityAmount := 500\<rparr>]
   \<and> sortBy (defaultFilters\<lparr>sortBy := ''liquidity''\<rparr>) \<in> {''liquidity'', ''liquidity_asc''}
   \<and> compareTokens (defaultFilters\<lparr>sortBy := ''liquidity''\<rparr>)
        ((exampleToken ''0xa1'')\<lparr>hpLiquidityAmount := 500\<rparr>)
        ((exampleToken ''0xc3'')\<lparr>hpLiquidityAmount := 500\<rparr>) = 0
   \<and> prefix
        [(exampleToken ''0xa1'')\<lparr>hpLiquidityAmount := 500\<rparr>,
         (exampleToken ''0xc3'')\<lparr>hpLiquidityAmount := 500\<rparr>]
        (filter (\<lambda>t. compareTokens (defaultFilters\<lparr>sortBy := ''liquidity''\<rparr>)
                        ((exampleToken ''0xa1'')\<lparr>hpLiquidityAmount := 500\<rparr>) t = 0)
           (filter (tokenFilter (defaultFilters\<lparr>sortBy := ''liquidity''\<rparr>))
              [(exampleToken ''0xa1'')\<lparr>hpLiquidityAmount := 500\<rparr>,
               (exampleToken ''0xb2'')\<lparr>hpLiquidityAmount := 2000\<rparr>,
               (exampleToken ''0xc3'')\<lparr>hpLiquidityAmount := 500\<rparr>]))
   \<and> sortBy defaultFilters \<in> {''age'', ''age_asc''}
   \<and> compareTokens defaultFilters
        ((exampleToken ''0xa1'')\<lparr>hpLiquidityAmount := 500\<rparr>)
        ((exampleToken ''0xc3'')\<lparr>hpLiquidityAmount := 500\<rparr>) = 0
   \<and> sortBy (defaultFilters\<lparr>sortBy := ''holders_asc''\<rparr>) \<in> {''holders'', ''holders_asc''}
   \<and> compareTokens (defaultFilters\<lparr>sortBy := ''holders_asc''\<rparr>)
        ((exampleToken ''0xa1'')\<lparr>hpLiquidityAmount := 500\<rparr>)
        ((exampleToken ''0xc3'')\<lparr>hpLiquidityAmount := 500\<rparr>) = 0
   \<and> sortBy (defaultFilters\<lparr>sortBy := ''safetyScore''\<rparr>) \<in> {''safetyScore'', ''safetyScore_asc''}
   \<and> compareTokens (defaultFilters\<lparr>sortBy := ''safetyScore''\<rparr>)
        ((exampleToken ''0xa1'')\<lparr>hpLiquidityAmount := 500\<rparr>)
        ((exampleToken ''0xc3'')\<lparr>hpLiquidityAmount := 500\<rparr>) = 0"
proof -
  have out: "filteredTokens
      [(exampleToken ''0xa1'')\<lparr>hpLiquidityAmount := 500\<rparr>,
       (exampleToken ''0xb2'')\<lparr>hpLiquidityAmount := 2000\<rparr>,
       (exampleToken ''0xc3'')\<lparr>hpLiquidityAmount := 500\<rparr>]
      (defaultFilters\<lparr>sortBy := ''liquidity''\<rparr>)
     = [(exampleToken ''0xb2'')\<lparr>hpLiquidityAmount := 2000\<rparr>,
        (exampleToken ''0xa1'')\<lparr>hpLiquidityAmount := 500\<rparr>,
        (exampleToken ''0xc3'')\<lparr>hpLiquidityAmount := 500\<rparr>]"
    by (simp add: filteredTokens_def tokenFilter_def defaultFilters_def jsSort_def slice0_def
          compareTokens_def sortDirectionField_def endsWith_def exampleToken_def)
  have cmp: "compareTokens (defaultFilters\<lparr>sortBy := ''liquidity''\<rparr>)
        ((exampleToken ''0xa1'')\<lparr>hpLiquidityAmount := 500\<rparr>) t = 0
        \<longleftrightarrow> hpLiquidityAmount t = 500" for t
    by (auto simp: compareTokens_def sortDirectionField_def endsWith_def defaultFilters_def
          exampleToken_def)
  have sel: "filter (\<lambda>t. compareTokens (defaultFilters\<lparr>sortBy := ''liquidity''\<rparr>)
                        ((exampleToken ''0xa1'')\<lparr>hpLiquidityAmount := 500\<rparr>) t = 0)
       [(exampleToken ''0xb2'')\<lparr>hpLiquidityAmount := 2000\<rparr>,
        (exampleToken ''0xa1'')\<lparr>hpLiquidityAmount := 500\<rparr>,
        (exampleToken ''0xc3'')\<lparr>hpLiquidityAmount := 500\<rparr>]
     = [(exampleToken ''0xa1'')\<lparr>hpLiquidityAmount := 500\<rparr>,
        (exampleToken ''0xc3'')\<lparr>hpLiquidityAmount := 500\<rparr>]"
    unfolding cmp by simp
  have mem: "sortBy (defaultFilters\<lparr>sortBy := ''liquidity''\<rparr>) \<in> {''liquidity'', ''liquidity_asc''}"
    "sortBy defaultFilters \<in> {''age'', ''age_asc''}"
    "sortBy (defaultFilters\<lparr>sortBy := ''holders_asc''\<rparr>) \<in> {''holders'', ''holders_asc''}"
    "sortBy (defaultFilters\<lparr>sortBy := ''safetyScore''\<rparr>) \<in> {''safetyScore'', ''safetyScore_asc''}"
    by (simp_all add: defaultFilters_def)
  have keys: "tokenAgeHours ((exampleToken ''0xa1'')\<lparr>hpLiquidityAmount := 500\<rparr>) = tokenAgeHours ((exampleToken ''0xc3'')\<lparr>hpLiquidityAmount := 500\<rparr>)"
    "gpHolderCount ((exampleToken ''0xa1'')\<lparr>hpLiquidityAmount := 500\<rparr>) = gpHolderCount ((exampleToken ''0xc3'')\<lparr>hpLiquidityAmount := 500\<rparr>)"
    "getRiskScore ((exampleToken ''0xa1'')\<lparr>hpLiquidityAmount := 500\<rparr>) = getRiskScore ((exampleToken ''0xc3'')\<lparr>hpLiquidityAmount := 500\<rparr>)"
    by (simp_all add: exampleToken_def getRiskScore_def)
  have liq: "filteredTokens
      [(exampleToken ''0xa1'')\<lparr>hpLiquidityAmount := 500\<rparr>,
       (exampleToken ''0xb2'')\<lparr>hpLiquidityAmount := 2000\<rparr>,
       (exampleToken ''0xc3'')\<lparr>hpLiquidityAmount := 500\<rparr>]
      (defaultFilters\<lparr>sortBy := ''liquidity''\<rparr>)
     = [(exampleToken ''0xb2'')\<lparr>hpLiquidityAmount := 2000\<rparr>,
        (exampleToken ''0xa1'')\<lparr>hpLiquidityAmount := 500\<rparr>,
        (exampleToken ''0xc3'')\<lparr>hpLiquidityAmount := 500\<rparr>]
   \<and> compareTokens (defaultFilters\<lparr>sortBy := ''liquidity''\<rparr>)
        ((exampleToken ''0xa1'')\<lparr>hpLiquidityAmount := 500\<rparr>)
        ((exampleToken ''0xc3'')\<lparr>hpLiquidityAmount := 500\<rparr>) = 0
   \<and> prefix
        [(exampleToken ''0xa1'')\<lparr>hpLiquidityAmount := 500\<rparr>,
         (exampleToken ''0xc3'')\<lparr>hpLiquidityAmount := 500\<rparr>]
        (filter (\<lambda>t. compareTokens (defaultFilters\<lparr>sortBy := ''liquidity''\<rparr>)
                        ((exampleToken ''0xa1'')\<lparr>hpLiquidityAmount := 500\<rparr>) t = 0)
           (filter (tokenFilter (defaultFilters\<lparr>sortBy := ''liquidity''\<rparr>))
              [(exampleToken ''0xa1'')\<lparr>hpLiquidityAmount := 500\<rparr>,
               (exampleToken ''0xb2'')\<lparr>hpLiquidityAmount := 2000\<rparr>,
               (exampleToken ''0xc3'')\<lparr>hpLiquidityAmount := 500\<rparr>]))"
    using filteredTokens_stable
      [of "defaultFilters\<lparr>sortBy := ''liquidity''\<rparr>"
        "(exampleToken ''0xa1'')\<lparr>hpLiquidityAmount := 500\<rparr>"
        "[(exampleToken ''0xa1'')\<lparr>hpLiquidityAmount := 500\<rparr>,
          (exampleToken ''0xb2'')\<lparr>hpLiquidityAmount := 2000\<rparr>,
          (exampleToken ''0xc3'')\<lparr>hpLiquidityAmount := 500\<rparr>]"
        "(exampleToken ''0xa1'')\<lparr>hpLiquidityAmount := 500\<rparr>"
        "(exampleToken ''0xc3'')\<lparr>hpLiquidityAmount := 500\<rparr>"]
    unfolding out sel using mem(1) by simp
  have age: "compareTokens defaultFilters
        ((exampleToken ''0xa1'')\<lparr>hpLiquidityAmount := 500\<rparr>)
        ((exampleToken ''0xc3'')\<lparr>hpLiquidityAmount := 500\<rparr>) = 0"
    using filteredTokens_stable
      [of defaultFilters "(exampleToken ''0xa1'')\<lparr>hpLiquidityAmount := 500\<rparr>" "[]"
        "(exampleToken ''0xa1'')\<lparr>hpLiquidityAmount := 500\<rparr>"
        "(exampleToken ''0xc3'')\<lparr>hpLiquidityAmount := 500\<rparr>"]
      mem(2) keys(1) by blast
  have hold: "compareTokens (defaultFilters\<lparr>sortBy := ''holders_asc''\<rparr>)
        ((exampleToken ''0xa1'')\<lparr>hpLiquidityAmount := 500\<rparr>)
        ((exampleToken ''0xc3'')\<lparr>hpLiquidityAmount := 500\<rparr>) = 0"
    using filteredTokens_stable
      [of "defaultFilters\<lparr>sortBy := ''holders_asc''\<rparr>" "(exampleToken ''0xa1'')\<lparr>hpLiquidityAmount := 500\<rparr>" "[]"
        "(exampleToken ''0xa1'')\<lparr>hpLiquidityAmount := 500\<rparr>"
        "(exampleToken ''0xc3'')\<lparr>hpLiquidityAmount := 500\<rparr>"]
      mem(3) keys(2) by blast
  have score: "compareTokens (defaultFilters\<lparr>sortBy := ''safetyScore''\<rparr>)
        ((exampleToken ''0xa1'')\<lparr>hpLiquidityAmount := 500\<rparr>)
        ((exampleToken ''0xc3'')\<lparr>hpLiquidityAmount := 500\<rparr>) = 0"
    using filteredTokens_stable
      [of "defaultFilters\<lparr>sortBy := ''safetyScore''\<rparr>" "(exampleToken ''0xa1'')\<lparr>hpLiquidityAmount := 500\<rparr>" "[]"
        "(exampleToken ''0xa1'')\<lparr>hpLiquidityAmount := 500\<rparr>"
        "(exampleToken ''0xc3'')\<lparr>hpLiquidityAmount := 500\<rparr>"]
      mem(4) keys(3) by blast
  from liq age hold score mem show ?thesis by blast
qed

section \<open>Properties of the trend calculation\<close>




lemma zip_index: "zip (map f [0..<length ys]) ys = map (\<lambda>i. (f i, ys ! i)) [0..<length ys]"
  by (rule nth_equalityI) simp_all




























section \<open>Chart trend and list trend\<close>







text \<open>
  At a slope of exactly 0.05 the two classifications also differ, although no point is
  dropped: the list tests \<open>|slope| < 0.05\<close> for stagnant, the chart \<open>slope > 0.05\<close> for up.
\<close>

lemma chart_trend_boundary:
  "calculateTrend
     [\<lparr>timestamp = 60000, totalLiquidity = Num 0, holderCount = Num 10\<rparr>,
      \<lparr>timestamp = 120000, totalLiquidity = Num 0.05, holderCount = Num 10\<rparr>] Liquidity = Up
   \<and> chartTrend
     [\<lparr>timestamp = 60000, totalLiquidity = Num 0, holderCount = Num 10\<rparr>,
      \<lparr>timestamp = 120000, totalLiquidity = Num 0.05, holderCount = Num 10\<rparr>] Liquidity = Stagnant"
  by (simp add: calculateTrend_def chartTrend_def dataMemo_def trendDirection_def Let_def
        jsSort_def compareTimestamp_def metricOf_def MIN_DATA_POINT_DISTANCE_def
        MAX_DATA_POINTS_def power2_eq_square)


section \<open>Properties of the list component's handlers\<close>

lemma currentTokens_toggle [simp]: "currentTokens (toggleTokenExpansion a s) = currentTokens s"
  by (simp add: currentTokens_def toggleTokenExpansion_def)

lemma estimateSize_frameCallbacks [simp]:
  "estimateSize (s\<lparr>frameCallbacks := c\<rparr>) i = estimateSize s i"
  by (simp add: estimateSize_def currentTokens_def)

lemma rowStart_frameCallbacks [simp]: "rowStart (s\<lparr>frameCallbacks := c\<rparr>) n = rowStart s n"
  by (simp add: rowStart_def)


text \<open>
  Claim C7, as amended. Toggling a row flips its address in the expansion set, removes
  the measured height recorded for that row's index and no other, and leaves the filters
  and the scroll offset as they are: the handler reads the offset but does not write it
  back. For a row present in the filtered sequence it registers one animation-frame
  callback, a scroll to that row; when that frame runs (nothing else pending, container
  mounted) the scroll offset becomes the start of the toggled row.
\<close>

theorem handleTokenClick_effect:
  "expandedTokens (handleTokenClick a s)
     = (if a \<in> expandedTokens s then expandedTokens s - {a} else insert a (expandedTokens s))
   \<and> measuredHeights (handleTokenClick a s)
     = (measuredHeights s)(findIndex (\<lambda>t. tokenAddress t = a) (currentTokens s) := None)
   \<and> scrollContainerRef (handleTokenClick a s) = scrollContainerRef s
   \<and> filters (handleTokenClick a s) = filters s
   \<and> frameCallbacks (handleTokenClick a s)
     = frameCallbacks s @
       (if 0 \<le> findIndex (\<lambda>t. tokenAddress t = a) (currentTokens s)
        then [ScrollToIndex (findIndex (\<lambda>t. tokenAddress t = a) (currentTokens s))] else [])
   \<and> (frameCallbacks s = [] \<and> scrollContainerRef s \<noteq> None
        \<and> 0 \<le> findIndex (\<lambda>t. tokenAddress t = a) (currentTokens s) \<longrightarrow>
      currentScroll (animationFrame (handleTokenClick a s))
        = rowStart (handleTokenClick a s)
            (nat (findIndex (\<lambda>t. tokenAddress t = a) (currentTokens s))))"
proof -
  define index where "index = findIndex (\<lambda>t. tokenAddress t = a) (currentTokens s)"
  define s2 where "s2 = (toggleTokenExpansion a s)\<lparr>
      measuredHeights := (measuredHeights (toggleTokenExpansion a s))(index := None),
      measureCalls := Suc (measureCalls (toggleTokenExpansion a s))\<rparr>"
  have h: "handleTokenClick a s
      = (if 0 \<le> index then s2\<lparr>frameCallbacks := frameCallbacks s2 @ [ScrollToIndex index]\<rparr>
         else s2)"
    by (simp add: handleTokenClick_def Let_def index_def s2_def)
  have e: "expandedTokens s2
      = (if a \<in> expandedTokens s then expandedTokens s - {a} else insert a (expandedTokens s))"
    by (simp add: s2_def toggleTokenExpansion_def)
  have m: "measuredHeights s2 = (measuredHeights s)(index := None)"
    by (simp add: s2_def toggleTokenExpansion_def)
  have r: "scrollContainerRef s2 = scrollContainerRef s" "filters s2 = filters s"
    "frameCallbacks s2 = frameCallbacks s"
    by (simp_all add: s2_def toggleTokenExpansion_def)
  have f: "currentScroll (animationFrame (handleTokenClick a s))
      = rowStart (handleTokenClick a s) (nat index)"
    if "frameCallbacks s = []" "scrollContainerRef s \<noteq> None" "0 \<le> index"
    using that by (auto simp: h r animationFrame_def currentScroll_def)
  from e m r f show ?thesis
    unfolding index_def[symmetric] by (simp add: h)
qed

text \<open>
  Six collapsed rows, viewport 100, offset 126: rows 3, 4 and 5 are visible and row 0 lies
  above the viewport. Toggling row 0 and running the frame scrolls to offset 0, where only
  row 0 is visible; had the offset 126 been reapplied instead, row 0 (now 800 high) would
  again be the only visible row.
\<close>

theorem handleTokenClick_scroll_counterexample:
  "visibleRows exampleList = [3, 4, 5]
   \<and> findIndex (\<lambda>t. tokenAddress t = ''0xa0'') (currentTokens exampleList) = 0
   \<and> rowStart exampleList 0 + estimateSize exampleList 0 \<le> currentScroll exampleList
   \<and> currentScroll exampleList = 126
   \<and> frameCallbacks (handleTokenClick ''0xa0'' exampleList) = [ScrollToIndex 0]
   \<and> currentScroll (animationFrame (handleTokenClick ''0xa0'' exampleList)) = 0
   \<and> visibleRows (animationFrame (handleTokenClick ''0xa0'' exampleList)) = [0]
   \<and> visibleRows (runCallback (handleTokenClick ''0xa0'' exampleList) (RestoreScroll 126)) = [0]"
  by code_simp

theorem handleTokenClick_effect_witness:
  "frameCallbacks exampleList = []
   \<and> scrollContainerRef exampleList = Some 126
   \<and> findIndex (\<lambda>t. tokenAddress t = ''0xa1'') (currentTokens exampleList) = 1
   \<and> expandedTokens (handleTokenClick ''0xa1'' exampleList) = {''0xa1''}
   \<and> frameCallbacks (handleTokenClick ''0xa1'' exampleList) = [ScrollToIndex 1]
   \<and> currentScroll (handleTokenClick ''0xa1'' exampleList) = 126
   \<and> currentScroll (animationFrame (handleTokenClick ''0xa1'' exampleList)) = 42"
proof -
  have a: "frameCallbacks exampleList = []" "scrollContainerRef exampleList = Some 126"
    "expandedTokens exampleList = {}"
    by (simp_all add: exampleList_def)
  have i: "findIndex (\<lambda>t. tokenAddress t = ''0xa1'') (currentTokens exampleList) = 1"
    by code_simp
  have r: "rowStart (handleTokenClick ''0xa1'' exampleList) (nat 1) = 42"
    by code_simp
  from handleTokenClick_effect[of "''0xa1''" exampleList] a i r
  show ?thesis by (simp add: currentScroll_def)
qed

text \<open>
  The measured-height pass of the \<open>ResizeObserver\<close>, by contrast, does restore the offset
  it read: after its animation frame the scroll offset is what it was before the pass.
\<close>

lemma resizeObserved_restores_scroll:
  assumes "frameCallbacks s = []"
  shows "currentScroll (animationFrame (resizeObserved entries s)) = currentScroll s"
  using assms
  by (auto simp: resizeObserved_def animationFrame_def currentScroll_def Let_def
        split: prod.splits option.splits)

end
